theory Spec2Isabelle
  imports Main "HOL-Library.Word"
begin

unbundle bit_operations_syntax

section \<open>Data model of the BSDF viewer pass\<close>

text \<open>
  The pass lives in \<^verbatim>\<open>Source/RenderPasses/BSDFViewer/BSDFViewer.cpp\<close>. Its header and the
  host framework are not part of the sources at hand, so every host service the pass
  calls is an explicit argument of the model, and single-precision floats are a type
  parameter \<open>'f\<close> whose operations come with the host as well.
\<close>

type_synonym uint32_t = "32 word"

text \<open>\<^verbatim>\<open>int\<close> components of \<^verbatim>\<open>glm::ivec2\<close>: 32 bits, read with \<open>sint\<close>.\<close>

type_synonym int32_t = "32 word"

type_synonym uint2 = "uint32_t \<times> uint32_t"
type_synonym int2 = "int32_t \<times> int32_t"
type_synonym 'f float2 = "'f \<times> 'f"
type_synonym 'f float3 = "'f \<times> 'f \<times> 'f"

text \<open>Host resources (compute pass, sample generator, structured buffer) are handles.\<close>

type_synonym handle = nat

text \<open>
  The exceptions the source throws, and its \<^verbatim>\<open>assert\<close>s, which stop the program where
  assertions are compiled in.
\<close>

datatype error = BindEnvProbeFailed | BindSampleGeneratorFailed | AssertionFailed

datatype 'a outcome = Returned 'a | Thrown error

text \<open>The float operations the source uses, as the host's arithmetic provides them.\<close>

record 'f FloatOps =
  ofUInt :: "uint32_t \<Rightarrow> 'f"
  toInt :: "'f \<Rightarrow> int32_t"
  fmul :: "'f \<Rightarrow> 'f \<Rightarrow> 'f"
  fdiv :: "'f \<Rightarrow> 'f \<Rightarrow> 'f"
  ftan :: "'f \<Rightarrow> 'f"
  fradians :: "'f \<Rightarrow> 'f"
  f1 :: 'f
  f2 :: 'f

text \<open>The shared parameter block \<^verbatim>\<open>mParams\<close>: the fields the source file reads or writes.\<close>

record 'f BSDFViewerParams =
  frameDim :: uint2
  frameCount :: uint32_t
  viewportOffset :: "'f float2"
  viewportScale :: "'f float2"
  sliceViewer :: bool
  useSceneMaterial :: bool
  materialID :: uint32_t
  useNormalMapping :: bool
  useFixedTexCoords :: bool
  texCoords :: "'f float2"
  baseColor :: "'f float3"
  linearRoughness :: 'f
  metallic :: 'f
  originalDisney :: bool
  enableDiffuse :: bool
  enableSpecular :: bool
  useBrdfSampling :: bool
  usePdf :: bool
  applyNdotL :: bool
  lightIntensity :: 'f
  lightColor :: "'f float3"
  useGroundPlane :: bool
  useDirectionalLight :: bool
  lightDir :: "'f float3"
  useEnvMap :: bool
  orthographicCamera :: bool
  cameraDistance :: 'f
  cameraFovY :: 'f
  cameraViewportScale :: 'f
  readback :: bool
  selectedPixel :: int2

text \<open>The record the kernel writes for the selected pixel.\<close>

record 'f PixelData =
  pd_texC :: "'f float2"
  pd_baseColor :: "'f float3"
  pd_diffuse :: "'f float3"
  pd_specular :: "'f float3"
  pd_linearRoughness :: 'f
  pd_metallic :: 'f
  pd_T :: "'f float3"
  pd_B :: "'f float3"
  pd_N :: "'f float3"
  pd_wo :: "'f float3"
  pd_wi :: "'f float3"
  pd_output :: "'f float3"

text \<open>
  What the pass asks of a scene: \<^verbatim>\<open>getMaterialCount()\<close>, \<^verbatim>\<open>getMaterial(i)->getName()\<close>, and
  \<^verbatim>\<open>getLightProbe()\<close>, of which only the source filename of the original texture is used.
\<close>

record Scene =
  getMaterialCount :: uint32_t
  getMaterialName :: "uint32_t \<Rightarrow> string"
  getLightProbe :: "string option"

text \<open>An environment probe: \<^verbatim>\<open>getEnvMap()->getSourceFilename()\<close> is all the pass reads.\<close>

record EnvProbe =
  envMapSourceFilename :: string

text \<open>
  The host services whose results decide a branch of the source. The refresh-flag key
  and bit are constants of the host's headers.
\<close>

record 'f Host =
  ComputePass_create :: "handle option"
  SampleGenerator_create :: "handle option"
  StructuredBuffer_create :: "handle \<Rightarrow> handle option"
  EnvProbe_create :: "string \<Rightarrow> EnvProbe option"
  EnvProbe_setIntoConstantBuffer :: "EnvProbe \<Rightarrow> bool"
  getFilenameFromPath :: "string \<Rightarrow> string"
  SampleGenerator_setIntoProgramVars :: bool
  kernelPixelData :: "'f BSDFViewerParams \<Rightarrow> 'f PixelData"
  kRenderPassRefreshFlags :: string
  RenderOptionsChanged :: uint32_t
  floatOps :: "'f FloatOps"

text \<open>The members of the pass object, and the host's log as the pass appends to it.\<close>

record 'f BSDFViewer =
  mpViewerPass :: "handle option"
  mpSampleGenerator :: "handle option"
  mPixelDataBuffer :: "handle option"
  mpScene :: "Scene option"
  mpEnvProbe :: "EnvProbe option"
  mEnvProbeFilename :: string
  mMaterialList :: "(uint32_t \<times> string) list"
  mParams :: "'f BSDFViewerParams"
  mOptionsChanged :: bool
  mPixelData :: "'f PixelData"
  mPixelDataValid :: bool
  warnings :: "string list"

section \<open>Construction\<close>

text \<open>
  \<^verbatim>\<open>init\<close> creates the compute pass, the sample generator and the readback buffer in this
  order and gives up at the first that is null.
\<close>

definition init :: "'f Host \<Rightarrow> 'f BSDFViewer \<Rightarrow> bool \<times> 'f BSDFViewer" where
  "init host s =
     (let s1 = s\<lparr>mpViewerPass := ComputePass_create host\<rparr> in
      case mpViewerPass s1 of
        None \<Rightarrow> (False, s1)
      | Some pass \<Rightarrow>
          (let s2 = s1\<lparr>mpSampleGenerator := SampleGenerator_create host\<rparr> in
           case mpSampleGenerator s2 of
             None \<Rightarrow> (False, s2)
           | Some gen \<Rightarrow>
               (let s3 = s2\<lparr>mPixelDataBuffer := StructuredBuffer_create host pass\<rparr> in
                case mPixelDataBuffer s3 of
                  None \<Rightarrow> (False, s3)
                | Some buf \<Rightarrow> (True, s3))))"

text \<open>
  \<^verbatim>\<open>create\<close>: \<open>fresh\<close> is the default-constructed object (the member initialisers are in
  the header); \<open>None\<close> is the null pointer.
\<close>

definition create :: "'f Host \<Rightarrow> 'f BSDFViewer \<Rightarrow> 'f BSDFViewer option" where
  "create host fresh = (case init host fresh of (ok, pPass) \<Rightarrow> if ok then Some pPass else None)"

section \<open>Compilation: the viewport\<close>

definition viewportExtent :: "uint2 \<Rightarrow> uint32_t" where
  "viewportExtent dim = min (fst dim) (snd dim)"

definition viewportXOffset :: "uint2 \<Rightarrow> uint32_t" where
  "viewportXOffset dim = (fst dim - viewportExtent dim) div 2"

definition viewportYOffset :: "uint2 \<Rightarrow> uint32_t" where
  "viewportYOffset dim = (snd dim - viewportExtent dim) div 2"

text \<open>\<open>defaultTexDims\<close> is the field of \<^verbatim>\<open>compileData\<close> that the source reads.\<close>

definition compile :: "'f Host \<Rightarrow> uint2 \<Rightarrow> 'f BSDFViewer \<Rightarrow> 'f BSDFViewer" where
  "compile host defaultTexDims s =
     (let fl = floatOps host;
          p1 = (mParams s)\<lparr>frameDim := defaultTexDims\<rparr>;
          extent = viewportExtent (frameDim p1);
          xOffset = viewportXOffset (frameDim p1);
          yOffset = viewportYOffset (frameDim p1);
          p2 = p1\<lparr>viewportOffset := (ofUInt fl xOffset, ofUInt fl yOffset)\<rparr>;
          scale = fdiv fl (f1 fl) (ofUInt fl extent);
          p3 = p2\<lparr>viewportScale := (scale, scale)\<rparr>
      in s\<lparr>mParams := p3\<rparr>)"

section \<open>Loading an environment map\<close>

definition loadEnvMap :: "'f Host \<Rightarrow> string \<Rightarrow> 'f BSDFViewer \<Rightarrow> bool outcome \<times> 'f BSDFViewer" where
  "loadEnvMap host filename s =
     (case EnvProbe_create host filename of
        None \<Rightarrow>
          (Returned False,
           s\<lparr>warnings := warnings s @ [''Failed to load environment map from '' @ filename]\<rparr>)
      | Some pEnvProbe \<Rightarrow>
          (let s1 = s\<lparr>mpEnvProbe := Some pEnvProbe\<rparr>;
               s2 = s1\<lparr>mEnvProbeFilename :=
                         getFilenameFromPath host (envMapSourceFilename pEnvProbe)\<rparr>
           in if \<not> EnvProbe_setIntoConstantBuffer host pEnvProbe
              then (Thrown BindEnvProbeFailed, s2)
              else (Returned True, s2)))"

section \<open>Input events\<close>

datatype MouseEventType =
  LeftButtonDown | LeftButtonUp | MiddleButtonDown | MiddleButtonUp
  | RightButtonDown | RightButtonUp | Move | Wheel

record 'f MouseEvent =
  mouseType :: MouseEventType
  pos :: "'f float2"

text \<open>\<^verbatim>\<open>glm::clamp(x, minVal, maxVal)\<close> is \<^verbatim>\<open>min(max(x, minVal), maxVal)\<close> on signed ints.\<close>

definition smax :: "int32_t \<Rightarrow> int32_t \<Rightarrow> int32_t" where
  "smax a b = (if a <s b then b else a)"

definition smin :: "int32_t \<Rightarrow> int32_t \<Rightarrow> int32_t" where
  "smin a b = (if b <s a then b else a)"

definition clamp_int :: "int32_t \<Rightarrow> int32_t \<Rightarrow> int32_t \<Rightarrow> int32_t" where
  "clamp_int x minVal maxVal = smin (smax x minVal) maxVal"

text \<open>
  The pixel under the cursor, \<^verbatim>\<open>(ivec2)(pos * (vec2)frameDim)\<close>, is computed in floats and
  converted; the cast \<^verbatim>\<open>(ivec2)frameDim\<close> keeps the 32 bits, and \<^verbatim>\<open>- 1\<close> is taken to wrap.
\<close>

definition cursorPixel :: "'f FloatOps \<Rightarrow> 'f float2 \<Rightarrow> uint2 \<Rightarrow> int2" where
  "cursorPixel fl p dim =
     (toInt fl (fmul fl (fst p) (ofUInt fl (fst dim))),
      toInt fl (fmul fl (snd p) (ofUInt fl (snd dim))))"

definition onMouseEvent :: "'f Host \<Rightarrow> 'f MouseEvent \<Rightarrow> 'f BSDFViewer \<Rightarrow> bool \<times> 'f BSDFViewer" where
  "onMouseEvent host mouseEvent s =
     (if mouseType mouseEvent = LeftButtonDown
      then
        (let dim = frameDim (mParams s);
             px = cursorPixel (floatOps host) (pos mouseEvent) dim;
             sel = (clamp_int (fst px) 0 (fst dim - 1), clamp_int (snd px) 0 (snd dim - 1))
         in (False, s\<lparr>mParams := (mParams s)\<lparr>selectedPixel := sel\<rparr>\<rparr>))
      else (False, s))"

datatype KeyboardEventType = KeyPressed | KeyReleased | KeyInput

datatype Key = Key_Left | Key_Right | Key_Other nat

record KeyboardEvent =
  keyType :: KeyboardEventType
  key :: Key

definition onKeyEvent :: "KeyboardEvent \<Rightarrow> 'f BSDFViewer \<Rightarrow> bool \<times> 'f BSDFViewer" where
  "onKeyEvent keyEvent s =
     (if keyType keyEvent = KeyPressed \<and> (key keyEvent = Key_Left \<or> key keyEvent = Key_Right)
      then
        (let id0 = materialID (mParams s);
             lastId = (if length (mMaterialList s) > 0
                       then (word_of_nat (length (mMaterialList s)) :: uint32_t) - 1 else 0);
             id1 = (if key keyEvent = Key_Left then (if id0 > 0 then id0 - 1 else lastId)
                    else if key keyEvent = Key_Right then (if id0 < lastId then id0 + 1 else 0)
                    else id0);
             s1 = (if id1 \<noteq> materialID (mParams s) then s\<lparr>mOptionsChanged := True\<rparr> else s)
         in (True, s1\<lparr>mParams := (mParams s1)\<lparr>materialID := id1\<rparr>\<rparr>))
      else (False, s))"

section \<open>Attaching a scene\<close>

text \<open>\<^verbatim>\<open>std::to_string\<close> of an unsigned value: its decimal digits.\<close>

fun to_string :: "nat \<Rightarrow> string" where
  "to_string n =
     (if n < 10 then [''0123456789'' ! n]
      else to_string (n div 10) @ [''0123456789'' ! (n mod 10)])"

text \<open>
  The loop \<^verbatim>\<open>for (uint32_t i = 0; i < mpScene->getMaterialCount(); i++)\<close>, from counter
  \<open>i\<close> on, pushing onto the list \<open>acc\<close>.
\<close>

function materialLoop :: "Scene \<Rightarrow> uint32_t \<Rightarrow> (uint32_t \<times> string) list \<Rightarrow> (uint32_t \<times> string) list" where
  "materialLoop scene i acc =
     (if i < getMaterialCount scene
      then materialLoop scene (i + 1)
             (acc @ [(i, to_string (unat i) @ '': '' @ getMaterialName scene i)])
      else acc)"
  by pat_completeness auto
termination
proof (relation "measure (\<lambda>(scene, i, acc). unat (getMaterialCount scene) - unat i)")
  show "wf (measure (\<lambda>(scene, i, acc). unat (getMaterialCount scene) - unat i))"
    by simp
next
  fix scene :: Scene and i :: uint32_t and acc :: "(uint32_t \<times> string) list"
  assume lt: "i < getMaterialCount scene"
  have "unat (getMaterialCount scene) < 2 ^ 32"
    using unsigned_less [of "getMaterialCount scene", where 'a = nat] by simp
  with lt have "unat i + unat (1 :: uint32_t) < 2 ^ LENGTH(32)"
    by (simp add: word_less_nat_alt)
  then have "unat (i + 1) = unat i + unat (1 :: uint32_t)"
    by (simp only: unat_add_lem [THEN iffD1])
  with lt show "((scene, i + 1, acc @ [(i, to_string (unat i) @ '': '' @ getMaterialName scene i)]),
               (scene, i, acc))
          \<in> measure (\<lambda>(scene, i, acc). unat (getMaterialCount scene) - unat i)"
    by (simp add: word_less_nat_alt)
qed

declare materialLoop.simps [simp del]

text \<open>The entry of the material list for the material of index \<open>i\<close>.\<close>

definition materialEntry :: "Scene \<Rightarrow> nat \<Rightarrow> uint32_t \<times> string" where
  "materialEntry scene i =
     (word_of_nat i, to_string i @ '': '' @ getMaterialName scene (word_of_nat i))"

text \<open>
  \<^verbatim>\<open>setScene\<close>. The result of \<^verbatim>\<open>loadEnvMap\<close> is dropped, its exception is not caught; the
  closing \<^verbatim>\<open>assert\<close> wants a scene with at least one material.
\<close>

definition setScene :: "'f Host \<Rightarrow> Scene option \<Rightarrow> 'f BSDFViewer \<Rightarrow> unit outcome \<times> 'f BSDFViewer" where
  "setScene host pScene s =
     (let s1 = s\<lparr>mpScene := pScene, mpEnvProbe := None, mEnvProbeFilename := [],
                 mMaterialList := [], mParams := (mParams s)\<lparr>materialID := 0\<rparr>\<rparr>
      in case pScene of
           None \<Rightarrow>
             (Returned (),
              s1\<lparr>mParams := (mParams s1)\<lparr>useSceneMaterial := False, useEnvMap := False\<rparr>\<rparr>)
         | Some scene \<Rightarrow>
             (let (thrown, s2) =
                    (case getLightProbe scene of
                       None \<Rightarrow> (None, s1)
                     | Some fn \<Rightarrow>
                         (case loadEnvMap host fn s1 of
                            (Thrown e, s') \<Rightarrow> (Some e, s')
                          | (Returned ok, s') \<Rightarrow> (None, s')))
              in case thrown of
                   Some e \<Rightarrow> (Thrown e, s2)
                 | None \<Rightarrow>
                     (let s3 = (if mpEnvProbe s2 = None
                                then s2\<lparr>mParams := (mParams s2)\<lparr>useEnvMap := False\<rparr>\<rparr> else s2);
                          s4 = s3\<lparr>mMaterialList := materialLoop scene 0 (mMaterialList s3)\<rparr>
                      in if length (mMaterialList s4) > 0 then (Returned (), s4)
                         else (Thrown AssertionFailed, s4))))"

section \<open>Executing a frame\<close>

text \<open>
  The render data's dictionary holds the refresh flags as an unsigned value under the
  host's key; \<^verbatim>\<open>execute\<close> returns it updated. The dispatch leaves the kernel's record for
  the selected pixel in the readback buffer.
\<close>

type_synonym Dictionary = "string \<rightharpoonup> uint32_t"

text \<open>The constant set up before the dispatch: the camera's viewport scale.\<close>

definition setupConstants :: "'f FloatOps \<Rightarrow> 'f BSDFViewerParams \<Rightarrow> 'f BSDFViewerParams" where
  "setupConstants fl p =
     p\<lparr>cameraViewportScale :=
         fmul fl (ftan fl (fradians fl (fdiv fl (cameraFovY p) (f2 fl)))) (cameraDistance p)\<rparr>"

definition execute :: "'f Host \<Rightarrow> Dictionary \<Rightarrow> 'f BSDFViewer \<Rightarrow> unit outcome \<times> 'f BSDFViewer \<times> Dictionary" where
  "execute host dict s =
     (let fl = floatOps host;
          (s1, dict1) =
            (if mOptionsChanged s
             then (let prevFlags = (case dict (kRenderPassRefreshFlags host) of
                                      Some v \<Rightarrow> v | None \<Rightarrow> 0)
                   in (s\<lparr>mOptionsChanged := False\<rparr>,
                       dict(kRenderPassRefreshFlags host \<mapsto> prevFlags OR RenderOptionsChanged host)))
             else (s, dict));
          s2 = s1\<lparr>mParams := setupConstants fl (mParams s1)\<rparr>
      in if \<not> SampleGenerator_setIntoProgramVars host
         then (Thrown BindSampleGeneratorFailed, s2, dict1)
         else
           (let buffer = kernelPixelData host (mParams s2);
                s3 = s2\<lparr>mPixelDataValid := False\<rparr>;
                s4 = (if readback (mParams s3)
                      then (let s' = s3\<lparr>mPixelData := buffer, mPixelDataValid := True\<rparr>
                            in s'\<lparr>mParams := (mParams s')\<lparr>texCoords := pd_texC (mPixelData s')\<rparr>\<rparr>)
                      else s3);
                s5 = s4\<lparr>mParams := (mParams s4)\<lparr>frameCount := frameCount (mParams s4) + 1\<rparr>\<rparr>
            in (Returned (), s5, dict1)))"

section \<open>The user interface\<close>

text \<open>
  The host's widgets, addressed by their label as in the source. A widget that edits a
  value answers with whether the value was changed and the value it leaves in the
  variable; \<open>groupOpen\<close> is \<^verbatim>\<open>Gui::Group::open()\<close>; \<open>openFileDialog\<close> is the chosen file,
  if the dialog was confirmed. Ranges, steps and formats are the host's business.
\<close>

record 'f Gui =
  checkbox :: "string \<Rightarrow> bool \<Rightarrow> bool \<times> bool"
  var_float :: "string \<Rightarrow> 'f \<Rightarrow> bool \<times> 'f"
  var_float2 :: "string \<Rightarrow> 'f float2 \<Rightarrow> bool \<times> 'f float2"
  var_float3 :: "string \<Rightarrow> 'f float3 \<Rightarrow> bool \<times> 'f float3"
  var_int2 :: "string \<Rightarrow> int2 \<Rightarrow> bool \<times> int2"
  rgbColor :: "string \<Rightarrow> 'f float3 \<Rightarrow> bool \<times> 'f float3"
  dropdown :: "string \<Rightarrow> (uint32_t \<times> string) list \<Rightarrow> uint32_t \<Rightarrow> bool \<times> uint32_t"
  button :: "string \<Rightarrow> bool"
  groupOpen :: "string \<Rightarrow> bool"
  openFileDialog :: "string option"

text \<open>The group "Material" of \<^verbatim>\<open>renderUI\<close>; \<open>dirty\<close> is the local flag of the source.\<close>

definition renderUI_material :: "'f Gui \<Rightarrow> bool \<Rightarrow> 'f BSDFViewer \<Rightarrow> bool outcome \<times> 'f BSDFViewer" where
  "renderUI_material ui dirty s =
     (if groupOpen ui ''Material''
      then
        (let p = mParams s;
             prevMode = useSceneMaterial p;
             p1 = p\<lparr>useSceneMaterial := snd (checkbox ui ''Use scene material'' (useSceneMaterial p))\<rparr>;
             p2 = (if mpScene s = None then p1\<lparr>useSceneMaterial := False\<rparr> else p1);
             dirty1 = (dirty \<or> useSceneMaterial p2 \<noteq> prevMode)
         in if useSceneMaterial p2
            then
              (if \<not> length (mMaterialList s) > 0
               then (Thrown AssertionFailed, s\<lparr>mParams := p2\<rparr>)
               else
                 (let (c3, v3) = dropdown ui ''Materials'' (mMaterialList s) (materialID p2);
                      p3 = p2\<lparr>materialID := v3\<rparr>;
                      (c4, v4) = checkbox ui ''Normal mapping'' (useNormalMapping p3);
                      p4 = p3\<lparr>useNormalMapping := v4\<rparr>;
                      (c5, v5) = checkbox ui ''Fixed tex coords'' (useFixedTexCoords p4);
                      p5 = p4\<lparr>useFixedTexCoords := v5\<rparr>;
                      (c6, v6) = var_float2 ui ''Tex coords'' (texCoords p5);
                      p6 = p5\<lparr>texCoords := v6\<rparr>
                  in (Returned (dirty1 \<or> c3 \<or> c4 \<or> c5 \<or> c6), s\<lparr>mParams := p6\<rparr>)))
            else
              (let (c3, v3) = rgbColor ui ''Base color'' (baseColor p2);
                   p3 = p2\<lparr>baseColor := v3\<rparr>;
                   (c4, v4) = var_float ui ''Roughness'' (linearRoughness p3);
                   p4 = p3\<lparr>linearRoughness := v4\<rparr>;
                   (c5, v5) = var_float ui ''Metallic'' (metallic p4);
                   p5 = p4\<lparr>metallic := v5\<rparr>
               in (Returned (dirty1 \<or> c3 \<or> c4 \<or> c5), s\<lparr>mParams := p5\<rparr>)))
      else (Returned dirty, s))"

text \<open>The group "BSDF".\<close>

definition renderUI_bsdf :: "'f Gui \<Rightarrow> bool \<Rightarrow> 'f BSDFViewer \<Rightarrow> bool \<times> 'f BSDFViewer" where
  "renderUI_bsdf ui dirty s =
     (if groupOpen ui ''BSDF''
      then
        (let p = mParams s;
             (c1, v1) = checkbox ui ''Original Disney BRDF'' (originalDisney p);
             p1 = p\<lparr>originalDisney := v1\<rparr>;
             (c2, v2) = checkbox ui ''Enable diffuse'' (enableDiffuse p1);
             p2 = p1\<lparr>enableDiffuse := v2\<rparr>;
             (c3, v3) = checkbox ui ''Enable specular'' (enableSpecular p2);
             p3 = p2\<lparr>enableSpecular := v3\<rparr>;
             (c4, v4) = checkbox ui ''Use BRDF sampling'' (useBrdfSampling p3);
             p4 = p3\<lparr>useBrdfSampling := v4\<rparr>;
             (c5, v5) = checkbox ui ''Use pdf'' (usePdf p4);
             p5 = p4\<lparr>usePdf := v5\<rparr>;
             (c6, v6) = checkbox ui ''Multiply BSDF slice by NdotL'' (applyNdotL p5);
             p6 = p5\<lparr>applyNdotL := v6\<rparr>
         in (dirty \<or> c1 \<or> c2 \<or> c3 \<or> c4 \<or> c5 \<or> c6, s\<lparr>mParams := p6\<rparr>))
      else (dirty, s))"

text \<open>
  The group "Light": the two light options, the check box of the loaded environment map
  and the button that loads another one.
\<close>

definition renderUI_light :: "'f Host \<Rightarrow> 'f Gui \<Rightarrow> bool \<Rightarrow> 'f BSDFViewer \<Rightarrow> bool outcome \<times> 'f BSDFViewer" where
  "renderUI_light host ui dirty s =
     (if groupOpen ui ''Light''
      then
        (let p = mParams s;
             (c1, v1) = var_float ui ''Light intensity'' (lightIntensity p);
             p1 = p\<lparr>lightIntensity := v1\<rparr>;
             (c2, v2) = rgbColor ui ''Light color'' (lightColor p1);
             p2 = p1\<lparr>lightColor := v2\<rparr>;
             (c3, v3) = checkbox ui ''Show ground plane'' (useGroundPlane p2);
             p3 = p2\<lparr>useGroundPlane := v3\<rparr>;
             (c4, v4) = checkbox ui ''Directional light'' (useDirectionalLight p3);
             p4 = p3\<lparr>useDirectionalLight := v4\<rparr>;
             dirty4 = (dirty \<or> c1 \<or> c2 \<or> c3 \<or> c4);
             (dirty5, p5) =
               (if useDirectionalLight p4
                then (let pa = p4\<lparr>useEnvMap := False\<rparr>;
                          (c, v) = var_float3 ui ''Light direction'' (lightDir pa)
                      in (dirty4 \<or> c, pa\<lparr>lightDir := v\<rparr>))
                else (dirty4, p4));
             (dirty6, p6) =
               (if mpEnvProbe s \<noteq> None
                then (let (c, v) = checkbox ui (''Envmap: '' @ mEnvProbeFilename s) (useEnvMap p5);
                          pb = p5\<lparr>useEnvMap := v\<rparr>
                      in (dirty5 \<or> c,
                          if useEnvMap pb then pb\<lparr>useDirectionalLight := False\<rparr> else pb))
                else (dirty5, p5));
             s6 = s\<lparr>mParams := p6\<rparr>
         in if button ui ''Load envmap''
            then
              (case openFileDialog ui of
                 None \<Rightarrow> (Returned dirty6, s6)
               | Some fn \<Rightarrow>
                   (case loadEnvMap host fn s6 of
                      (Thrown e, s7) \<Rightarrow> (Thrown e, s7)
                    | (Returned ok, s7) \<Rightarrow>
                        if ok
                        then (Returned True,
                              s7\<lparr>mParams := (mParams s7)\<lparr>useDirectionalLight := False,
                                                         useEnvMap := True\<rparr>\<rparr>)
                        else (Returned dirty6, s7)))
            else (Returned dirty6, s6))
      else (Returned dirty, s))"

text \<open>The group "Camera".\<close>

definition renderUI_camera :: "'f Gui \<Rightarrow> bool \<Rightarrow> 'f BSDFViewer \<Rightarrow> bool \<times> 'f BSDFViewer" where
  "renderUI_camera ui dirty s =
     (if groupOpen ui ''Camera''
      then
        (let p = mParams s;
             (c1, v1) = checkbox ui ''Orthographic camera'' (orthographicCamera p);
             p1 = p\<lparr>orthographicCamera := v1\<rparr>
         in if \<not> orthographicCamera p1
            then
              (let (c2, v2) = var_float ui ''Viewing distance'' (cameraDistance p1);
                   p2 = p1\<lparr>cameraDistance := v2\<rparr>;
                   (c3, v3) = var_float ui ''Vertical FOV (degrees)'' (cameraFovY p2);
                   p3 = p2\<lparr>cameraFovY := v3\<rparr>
               in (dirty \<or> c1 \<or> c2 \<or> c3, s\<lparr>mParams := p3\<rparr>))
            else (dirty \<or> c1, s\<lparr>mParams := p1\<rparr>))
      else (dirty, s))"

text \<open>
  The group "Pixel data": it decides whether the next frame reads the pixel record back,
  and shows the record in widgets whose answers the source drops.
\<close>

definition renderUI_pixel :: "'f Gui \<Rightarrow> 'f BSDFViewer \<Rightarrow> 'f BSDFViewer" where
  "renderUI_pixel ui s =
     (let p = mParams s;
          readTexCoords = (useSceneMaterial p \<and> \<not> useFixedTexCoords p);
          s1 = s\<lparr>mParams := p\<lparr>readback := (readTexCoords \<or> groupOpen ui ''Pixel data'')\<rparr>\<rparr>
      in if groupOpen ui ''Pixel data''
         then
           (let p1 = mParams s1;
                s2 = s1\<lparr>mParams := p1\<lparr>selectedPixel := snd (var_int2 ui ''Pixel'' (selectedPixel p1))\<rparr>\<rparr>
            in if mPixelDataValid s2
               then
                 (let d = mPixelData s2;
                      d1 = d\<lparr>pd_texC := snd (var_float2 ui ''texC'' (pd_texC d))\<rparr>;
                      d2 = d1\<lparr>pd_baseColor := snd (var_float3 ui ''baseColor'' (pd_baseColor d1))\<rparr>;
                      d3 = d2\<lparr>pd_diffuse := snd (var_float3 ui ''diffuse'' (pd_diffuse d2))\<rparr>;
                      d4 = d3\<lparr>pd_specular := snd (var_float3 ui ''specular'' (pd_specular d3))\<rparr>;
                      d5 = d4\<lparr>pd_linearRoughness := snd (var_float ui ''roughness'' (pd_linearRoughness d4))\<rparr>;
                      d6 = d5\<lparr>pd_metallic := snd (var_float ui ''metallic'' (pd_metallic d5))\<rparr>;
                      d7 = d6\<lparr>pd_T := snd (var_float3 ui ''T'' (pd_T d6))\<rparr>;
                      d8 = d7\<lparr>pd_B := snd (var_float3 ui ''B'' (pd_B d7))\<rparr>;
                      d9 = d8\<lparr>pd_N := snd (var_float3 ui ''N'' (pd_N d8))\<rparr>;
                      d10 = d9\<lparr>pd_wo := snd (var_float3 ui ''wo'' (pd_wo d9))\<rparr>;
                      d11 = d10\<lparr>pd_wi := snd (var_float3 ui ''wi'' (pd_wi d10))\<rparr>;
                      d12 = d11\<lparr>pd_output := snd (var_float3 ui ''output'' (pd_output d11))\<rparr>
                  in s2\<lparr>mPixelData := d12\<rparr>)
               else s2)
         else s1)"

text \<open>
  What the two check boxes of the light group leave in their variables, in terms of the
  state \<^verbatim>\<open>renderUI\<close> starts from: "Directional light" sees the option as it was, the
  environment map's box sees its option after an enabled directional light cleared it.
\<close>

definition directionalBox :: "'f Gui \<Rightarrow> 'f BSDFViewer \<Rightarrow> bool" where
  "directionalBox ui s = snd (checkbox ui ''Directional light'' (useDirectionalLight (mParams s)))"

definition envMapBox :: "'f Gui \<Rightarrow> 'f BSDFViewer \<Rightarrow> bool" where
  "envMapBox ui s =
     snd (checkbox ui (''Envmap: '' @ mEnvProbeFilename s)
            (if directionalBox ui s then False else useEnvMap (mParams s)))"

text \<open>\<^verbatim>\<open>renderUI\<close>: the groups in the source's order; an exception leaves \<open>dirty\<close> unrecorded.\<close>

definition renderUI :: "'f Host \<Rightarrow> 'f Gui \<Rightarrow> 'f BSDFViewer \<Rightarrow> unit outcome \<times> 'f BSDFViewer" where
  "renderUI host ui s =
     (let (c0, v0) = checkbox ui ''Enable BSDF slice viewer'' (sliceViewer (mParams s));
          s0 = s\<lparr>mParams := (mParams s)\<lparr>sliceViewer := v0\<rparr>\<rparr>
      in case renderUI_material ui (False \<or> c0) s0 of
           (Thrown e, s1) \<Rightarrow> (Thrown e, s1)
         | (Returned dirty1, s1) \<Rightarrow>
             (let (dirty2, s2) = renderUI_bsdf ui dirty1 s1
              in case renderUI_light host ui dirty2 s2 of
                   (Thrown e, s3) \<Rightarrow> (Thrown e, s3)
                 | (Returned dirty3, s3) \<Rightarrow>
                     (let (dirty4, s4) = renderUI_camera ui dirty3 s3;
                          s5 = renderUI_pixel ui s4
                      in (Returned (), if dirty4 then s5\<lparr>mOptionsChanged := True\<rparr> else s5))))"

section \<open>Concrete inputs\<close>

text \<open>
  A host, a scene, a user interface and a pass object to evaluate the operations on. The
  floats of these inputs are integers: no statement below depends on rounding.
\<close>

definition demoFloatOps :: "int FloatOps" where
  "demoFloatOps = \<lparr>ofUInt = uint, toInt = word_of_int, fmul = (*), fdiv = (div),
     ftan = id, fradians = id, f1 = 1, f2 = 2\<rparr>"

definition demoPixelData :: "int PixelData" where
  "demoPixelData = \<lparr>pd_texC = (0, 0), pd_baseColor = (0, 0, 0), pd_diffuse = (0, 0, 0),
     pd_specular = (0, 0, 0), pd_linearRoughness = 0, pd_metallic = 0, pd_T = (0, 0, 0),
     pd_B = (0, 0, 0), pd_N = (0, 0, 0), pd_wo = (0, 0, 0), pd_wi = (0, 0, 0),
     pd_output = (0, 0, 0)\<rparr>"

definition demoHost :: "int Host" where
  "demoHost = \<lparr>ComputePass_create = Some 1, SampleGenerator_create = Some 2,
     StructuredBuffer_create = (\<lambda>pass. Some 3),
     EnvProbe_create = (\<lambda>fn. if fn = ''sky.hdr''
                             then Some \<lparr>envMapSourceFilename = ''media/sky.hdr''\<rparr> else None),
     EnvProbe_setIntoConstantBuffer = (\<lambda>probe. True),
     getFilenameFromPath = (\<lambda>path. ''sky.hdr''),
     SampleGenerator_setIntoProgramVars = True,
     kernelPixelData = (\<lambda>p. demoPixelData\<lparr>pd_texC := (7, 9)\<rparr>),
     kRenderPassRefreshFlags = ''_refreshFlags'',
     RenderOptionsChanged = 2,
     floatOps = demoFloatOps\<rparr>"

definition demoParams :: "int BSDFViewerParams" where
  "demoParams = \<lparr>frameDim = (4, 3), frameCount = 0, viewportOffset = (0, 0),
     viewportScale = (0, 0), sliceViewer = False, useSceneMaterial = False, materialID = 0,
     useNormalMapping = False, useFixedTexCoords = False, texCoords = (0, 0),
     baseColor = (0, 0, 0), linearRoughness = 0, metallic = 0, originalDisney = False,
     enableDiffuse = True, enableSpecular = True, useBrdfSampling = True, usePdf = False,
     applyNdotL = False, lightIntensity = 1, lightColor = (1, 1, 1), useGroundPlane = False,
     useDirectionalLight = False, lightDir = (0, 0, 1), useEnvMap = False,
     orthographicCamera = False, cameraDistance = 2, cameraFovY = 90,
     cameraViewportScale = 0, readback = False, selectedPixel = (0, 0)\<rparr>"

definition demoViewer :: "int BSDFViewer" where
  "demoViewer = \<lparr>mpViewerPass = Some 1, mpSampleGenerator = Some 2, mPixelDataBuffer = Some 3,
     mpScene = None, mpEnvProbe = None, mEnvProbeFilename = [], mMaterialList = [],
     mParams = demoParams, mOptionsChanged = False, mPixelData = demoPixelData,
     mPixelDataValid = False, warnings = []\<rparr>"

definition demoScene :: Scene where
  "demoScene = \<lparr>getMaterialCount = 2,
     getMaterialName = (\<lambda>i. if i = 0 then ''gold'' else ''iron''),
     getLightProbe = None\<rparr>"

text \<open>A user interface in which every group is open and nothing is touched.\<close>

definition demoGui :: "int Gui" where
  "demoGui = \<lparr>checkbox = (\<lambda>label v. (False, v)), var_float = (\<lambda>label v. (False, v)),
     var_float2 = (\<lambda>label v. (False, v)), var_float3 = (\<lambda>label v. (False, v)),
     var_int2 = (\<lambda>label v. (False, v)), rgbColor = (\<lambda>label v. (False, v)),
     dropdown = (\<lambda>label list v. (False, v)), button = (\<lambda>label. False),
     groupOpen = (\<lambda>label. True), openFileDialog = None\<rparr>"

lemmas demo_defs =
  demoFloatOps_def demoPixelData_def demoHost_def demoParams_def demoViewer_def
  demoScene_def demoGui_def

section \<open>Loading an environment map: failure\<close>

text \<open>
  C1 (as amended). When the environment probe cannot be created from the file name,
  \<^verbatim>\<open>loadEnvMap\<close> logs one warning, returns false and changes nothing else: the probe
  handle, its display name and every parameter keep their values.
\<close>

theorem loadEnvMap_create_failure:
  assumes "EnvProbe_create host filename = None"
  shows "loadEnvMap host filename s
           = (Returned False,
              s\<lparr>warnings := warnings s @ [''Failed to load environment map from '' @ filename]\<rparr>)
       \<and> mpEnvProbe (snd (loadEnvMap host filename s)) = mpEnvProbe s
       \<and> mEnvProbeFilename (snd (loadEnvMap host filename s)) = mEnvProbeFilename s
       \<and> mParams (snd (loadEnvMap host filename s)) = mParams s"
  using assms by (simp add: loadEnvMap_def)

theorem loadEnvMap_create_failure_witness:
  "EnvProbe_create demoHost ''none.hdr'' = None
   \<and> loadEnvMap demoHost ''none.hdr'' demoViewer
       = (Returned False,
          demoViewer\<lparr>warnings := [''Failed to load environment map from none.hdr'']\<rparr>)"
proof -
  have h: "EnvProbe_create demoHost ''none.hdr'' = None"
    by (simp add: demoHost_def)
  show ?thesis
    using h loadEnvMap_create_failure [OF h, of demoViewer]
    by (simp add: demoViewer_def)
qed

text \<open>
  The other way \<^verbatim>\<open>loadEnvMap\<close> fails: the probe is created but cannot be bound. The
  exception leaves the new handle and the new display name in the object.
\<close>

theorem loadEnvMap_bind_failure_mutates:
  "fst (loadEnvMap (demoHost\<lparr>EnvProbe_setIntoConstantBuffer := (\<lambda>probe. False)\<rparr>)
          ''sky.hdr'' demoViewer) = Thrown BindEnvProbeFailed
   \<and> mpEnvProbe (snd (loadEnvMap (demoHost\<lparr>EnvProbe_setIntoConstantBuffer := (\<lambda>probe. False)\<rparr>)
          ''sky.hdr'' demoViewer)) \<noteq> mpEnvProbe demoViewer
   \<and> mEnvProbeFilename (snd (loadEnvMap (demoHost\<lparr>EnvProbe_setIntoConstantBuffer := (\<lambda>probe. False)\<rparr>)
          ''sky.hdr'' demoViewer)) \<noteq> mEnvProbeFilename demoViewer"
  by (simp add: loadEnvMap_def demo_defs)

section \<open>Cycling through the materials\<close>

lemma lastId_unat:
  assumes "1 \<le> n" "n \<le> 2 ^ 32"
  shows "unat ((word_of_nat n :: uint32_t) - 1) = n - 1"
proof -
  have "(word_of_nat n :: uint32_t) - 1 = word_of_nat (n - 1)"
    using assms by simp
  moreover have "n - 1 < 2 ^ 32" using assms by simp
  ultimately show ?thesis by (simp add: unat_of_nat)
qed

text \<open>
  C2. With a list of \<open>n \<ge> 1\<close> materials and the index \<open>i\<close> in \<open>[0, n - 1]\<close>, a pressed
  Right key moves to \<open>i + 1\<close>, from \<open>n - 1\<close> to \<open>0\<close>; a pressed Left key moves to \<open>i - 1\<close>,
  from \<open>0\<close> to \<open>n - 1\<close>. The source casts the list's size to 32 bits; the lists that
  \<^verbatim>\<open>setScene\<close> builds fit (lemma \<open>setScene_list_fits\<close> below).
\<close>

theorem onKeyEvent_cycles_materials:
  fixes s :: "'f BSDFViewer"
  assumes "n = length (mMaterialList s)" and "1 \<le> n" and "n \<le> 2 ^ 32"
    and "i = unat (materialID (mParams s))" and "i < n"
  shows "unat (materialID (mParams (snd (onKeyEvent \<lparr>keyType = KeyPressed, key = Key_Right\<rparr> s))))
           = (if i < n - 1 then i + 1 else 0)
       \<and> unat (materialID (mParams (snd (onKeyEvent \<lparr>keyType = KeyPressed, key = Key_Left\<rparr> s))))
           = (if i > 0 then i - 1 else n - 1)"
proof -
  have last: "unat ((word_of_nat n :: uint32_t) - 1) = n - 1"
    using assms(2,3) by (rule lastId_unat)
  have right: "unat (materialID (mParams (snd (onKeyEvent \<lparr>keyType = KeyPressed, key = Key_Right\<rparr> s))))
           = (if i < n - 1 then i + 1 else 0)"
    using assms last
    apply (simp add: onKeyEvent_def Let_def word_less_nat_alt)
    apply (auto simp: unat_word_ariths word_less_nat_alt)
    done
  have left: "unat (materialID (mParams (snd (onKeyEvent \<lparr>keyType = KeyPressed, key = Key_Left\<rparr> s))))
           = (if i > 0 then i - 1 else n - 1)"
    using assms last
    apply (simp add: onKeyEvent_def Let_def word_less_nat_alt)
    apply (auto simp: unat_minus_one unat_gt_0)
    done
  from right left show ?thesis ..
qed

theorem onKeyEvent_cycles_materials_witness:
  "materialID (mParams (snd (onKeyEvent \<lparr>keyType = KeyPressed, key = Key_Right\<rparr>
      (demoViewer\<lparr>mMaterialList := [(0, ''0: gold''), (1, ''1: iron'')],
                  mParams := demoParams\<lparr>materialID := 1\<rparr>\<rparr>)))) = 0
   \<and> materialID (mParams (snd (onKeyEvent \<lparr>keyType = KeyPressed, key = Key_Left\<rparr>
      (demoViewer\<lparr>mMaterialList := [(0, ''0: gold''), (1, ''1: iron'')],
                  mParams := demoParams\<lparr>materialID := 1\<rparr>\<rparr>)))) = 0"
  using onKeyEvent_cycles_materials
    [of 2 "demoViewer\<lparr>mMaterialList := [(0, ''0: gold''), (1, ''1: iron'')],
                       mParams := demoParams\<lparr>materialID := 1\<rparr>\<rparr>" 1]
  by (simp add: demoViewer_def unat_eq_0)

section \<open>Selecting a pixel\<close>

lemma sint_small:
  fixes x :: int32_t
  assumes "uint x < 2 ^ 31"
  shows "sint x = uint x"
proof -
  have "- (2 ^ 31) \<le> (0 :: int)" by simp
  also have "0 \<le> uint x" by simp
  finally have "- (2 ^ 31) \<le> uint x" .
  with assms have "signed_take_bit 31 (uint x) = uint x"
    by (rule signed_take_bit_int_eq_self [rotated])
  then show ?thesis by (simp add: sint_uint)
qed

lemma sint_frame_bound:
  fixes w :: uint32_t
  assumes "1 \<le> uint w" "uint w < 2 ^ 31"
  shows "sint (w - 1) = uint w - 1"
proof -
  have "uint (1 :: uint32_t) \<le> uint w" using assms(1) by simp
  then have "uint (w - 1) = uint w - uint (1 :: uint32_t)"
    by (simp only: uint_sub_lem)
  then have u: "uint (w - 1) = uint w - 1" by simp
  then have "uint (w - 1) < 2 ^ 31" using assms(2) by linarith
  then show ?thesis using u by (simp only: sint_small)
qed

lemma sint_clamp_int:
  "sint (clamp_int x lo hi) = min (max (sint x) (sint lo)) (sint hi)"
  by (simp add: clamp_int_def smin_def smax_def word_sless_alt min_def max_def)

text \<open>
  C3 (as amended). With both frame dimensions in \<open>[1, 2\<^sup>3\<^sup>1 - 1]\<close>, a left button press
  sets the selected pixel to the pixel under the cursor clamped, in each component, into
  \<open>[0, frameDim.x - 1] \<times> [0, frameDim.y - 1]\<close>; an event of any other type leaves the whole
  object as it was.
\<close>

theorem onMouseEvent_selects_pixel:
  fixes s :: "'f BSDFViewer"
  assumes "frameDim (mParams s) = (w, h)"
    and "1 \<le> uint w" and "uint w < 2 ^ 31" and "1 \<le> uint h" and "uint h < 2 ^ 31"
    and "selectedPixel (mParams (snd (onMouseEvent host e s))) = (x, y)"
    and "cursorPixel (floatOps host) (pos e) (w, h) = (cx, cy)"
  shows "(mouseType e = LeftButtonDown \<longrightarrow>
            sint x = min (max (sint cx) 0) (uint w - 1)
          \<and> sint y = min (max (sint cy) 0) (uint h - 1)
          \<and> 0 \<le> sint x \<and> sint x \<le> uint w - 1
          \<and> 0 \<le> sint y \<and> sint y \<le> uint h - 1)
       \<and> (mouseType e \<noteq> LeftButtonDown \<longrightarrow> snd (onMouseEvent host e s) = s)"
proof -
  have bw: "sint (w - 1) = uint w - 1" and bh: "sint (h - 1) = uint h - 1"
    using assms(2-5) by (simp_all only: sint_frame_bound)
  show ?thesis
    using assms(1,2,4,6,7) bw bh
    by (auto simp: onMouseEvent_def Let_def sint_clamp_int)
qed

theorem onMouseEvent_selects_pixel_witness:
  "selectedPixel (mParams (snd (onMouseEvent demoHost
       \<lparr>mouseType = LeftButtonDown, pos = (2, 1)\<rparr> demoViewer))) = (3, 2)
   \<and> snd (onMouseEvent demoHost \<lparr>mouseType = Move, pos = (2, 1)\<rparr> demoViewer) = demoViewer"
  using onMouseEvent_selects_pixel
    [of demoViewer 4 3 demoHost "\<lparr>mouseType = LeftButtonDown, pos = (2, 1)\<rparr>" 3 2 8 3]
    onMouseEvent_selects_pixel
    [of demoViewer 4 3 demoHost "\<lparr>mouseType = Move, pos = (2, 1)\<rparr>" 0 0 8 3]
  by (simp add: onMouseEvent_def cursorPixel_def clamp_int_def smin_def smax_def
        word_sless_alt demo_defs)

text \<open>
  A frame wider than \<open>2\<^sup>3\<^sup>1\<close> pixels: its width minus one is negative as an \<^verbatim>\<open>int\<close>, and
  so is the selected column, although both dimensions are at least 1.
\<close>

theorem onMouseEvent_wide_frame_negative:
  "1 \<le> uint (0x80000001 :: uint32_t) \<and> 1 \<le> uint (1 :: uint32_t)
   \<and> sint (fst (selectedPixel (mParams (snd (onMouseEvent demoHost
        \<lparr>mouseType = LeftButtonDown, pos = (0, 0)\<rparr>
        (demoViewer\<lparr>mParams := demoParams\<lparr>frameDim := (0x80000001, 1)\<rparr>\<rparr>))))))
       = - 2147483648"
  by (simp add: onMouseEvent_def cursorPixel_def clamp_int_def smin_def smax_def
        word_sless_alt demo_defs)

section \<open>The arrow keys and the options-changed flag\<close>

text \<open>
  C4 (as amended). A pressed Left or Right key sets the options-changed flag when it
  changes the material index, and otherwise leaves the flag as it was.
\<close>

theorem onKeyEvent_marks_changed_index:
  fixes s :: "'f BSDFViewer"
  assumes "keyType e = KeyPressed" and "key e = Key_Left \<or> key e = Key_Right"
  shows "mOptionsChanged (snd (onKeyEvent e s))
           = (mOptionsChanged s
              \<or> materialID (mParams (snd (onKeyEvent e s))) \<noteq> materialID (mParams s))"
  using assms by (auto simp: onKeyEvent_def Let_def)

theorem onKeyEvent_marks_changed_index_witness:
  "mOptionsChanged (snd (onKeyEvent \<lparr>keyType = KeyPressed, key = Key_Right\<rparr>
      (demoViewer\<lparr>mMaterialList := [(0, ''0: gold''), (1, ''1: iron'')]\<rparr>)))"
  using onKeyEvent_marks_changed_index
    [of "\<lparr>keyType = KeyPressed, key = Key_Right\<rparr>"
        "demoViewer\<lparr>mMaterialList := [(0, ''0: gold''), (1, ''1: iron'')]\<rparr>"]
  by (simp add: onKeyEvent_def demo_defs)

text \<open>With a single material the index stays at 0 and the flag stays unset.\<close>

theorem onKeyEvent_single_material_unmarked:
  "\<not> mOptionsChanged (snd (onKeyEvent \<lparr>keyType = KeyPressed, key = Key_Right\<rparr>
        (demoViewer\<lparr>mMaterialList := [(0, ''0: gold'')]\<rparr>)))"
  by (simp add: onKeyEvent_def demo_defs)

section \<open>Frames: readback and refresh flags\<close>

text \<open>
  C5 (as amended). After a call of \<^verbatim>\<open>execute\<close> that returns, the validity flag of the
  pixel record is the readback option: if the option was on, the record is the one the
  dispatch left in the readback buffer and the flag is true; if it was off, the flag is
  false.
\<close>

theorem execute_validity_is_readback:
  assumes "fst (execute host dict s) = Returned ()"
  shows "mPixelDataValid (fst (snd (execute host dict s))) = readback (mParams s)
       \<and> (readback (mParams s) \<longrightarrow>
            mPixelData (fst (snd (execute host dict s)))
              = kernelPixelData host (setupConstants (floatOps host) (mParams s)))"
  using assms
  by (auto simp: execute_def Let_def setupConstants_def split: if_splits prod.splits)

theorem execute_validity_is_readback_witness:
  "fst (execute demoHost Map.empty (demoViewer\<lparr>mParams := demoParams\<lparr>readback := True\<rparr>\<rparr>))
     = Returned ()
   \<and> mPixelDataValid (fst (snd (execute demoHost Map.empty
         (demoViewer\<lparr>mParams := demoParams\<lparr>readback := True\<rparr>\<rparr>))))
   \<and> pd_texC (mPixelData (fst (snd (execute demoHost Map.empty
         (demoViewer\<lparr>mParams := demoParams\<lparr>readback := True\<rparr>\<rparr>))))) = (7, 9)
   \<and> \<not> mPixelDataValid (fst (snd (execute demoHost Map.empty
         (demoViewer\<lparr>mPixelDataValid := True\<rparr>))))"
proof -
  have r: "fst (execute demoHost Map.empty (demoViewer\<lparr>mParams := demoParams\<lparr>readback := True\<rparr>\<rparr>))
             = Returned ()"
    by (simp add: execute_def setupConstants_def demo_defs)
  have r': "fst (execute demoHost Map.empty (demoViewer\<lparr>mPixelDataValid := True\<rparr>)) = Returned ()"
    by (simp add: execute_def setupConstants_def demo_defs)
  show ?thesis
    using r execute_validity_is_readback [OF r] execute_validity_is_readback [OF r']
    by (simp add: demo_defs)
qed

text \<open>
  A call that throws because the sample generator cannot be bound leaves before the
  flag is written: with the readback option off, a flag that was true stays true,
  although nothing was read back in that frame.
\<close>

theorem execute_throw_keeps_stale_flag:
  "fst (execute (demoHost\<lparr>SampleGenerator_setIntoProgramVars := False\<rparr>) Map.empty
          (demoViewer\<lparr>mPixelDataValid := True\<rparr>)) = Thrown BindSampleGeneratorFailed
   \<and> \<not> readback (mParams (demoViewer\<lparr>mPixelDataValid := True\<rparr>))
   \<and> mPixelDataValid (fst (snd (execute (demoHost\<lparr>SampleGenerator_setIntoProgramVars := False\<rparr>)
          Map.empty (demoViewer\<lparr>mPixelDataValid := True\<rparr>))))"
  by (simp add: execute_def setupConstants_def demo_defs)

text \<open>
  C6. When the options-changed flag is set, \<^verbatim>\<open>execute\<close> stores under the refresh-flags key
  the previous flags of that entry (none, if the key was absent) OR-ed with
  \<open>RenderOptionsChanged\<close>, so that the previous bits are kept, and resets the flag; when
  the flag is not set, the dictionary is returned as it was. This holds whether or not
  the call goes on to throw.
\<close>

theorem execute_refresh_flags:
  "(mOptionsChanged s \<longrightarrow>
      snd (snd (execute host dict s))
        = dict(kRenderPassRefreshFlags host \<mapsto>
                 (case dict (kRenderPassRefreshFlags host) of None \<Rightarrow> 0 | Some prev \<Rightarrow> prev)
                   OR RenderOptionsChanged host)
      \<and> (\<forall>prev. dict (kRenderPassRefreshFlags host) = Some prev \<longrightarrow>
            (prev OR RenderOptionsChanged host) AND prev = prev)
      \<and> \<not> mOptionsChanged (fst (snd (execute host dict s))))
   \<and> (\<not> mOptionsChanged s \<longrightarrow>
        snd (snd (execute host dict s)) = dict
        \<and> \<not> mOptionsChanged (fst (snd (execute host dict s))))"
  by (auto simp: execute_def Let_def word_ao_absorbs split: if_splits prod.splits option.splits)

theorem execute_refresh_flags_witness:
  "snd (snd (execute demoHost [''_refreshFlags'' \<mapsto> 1] (demoViewer\<lparr>mOptionsChanged := True\<rparr>)))
      ''_refreshFlags'' = Some 3
   \<and> \<not> mOptionsChanged (fst (snd (execute demoHost [''_refreshFlags'' \<mapsto> 1]
          (demoViewer\<lparr>mOptionsChanged := True\<rparr>))))
   \<and> snd (snd (execute demoHost [''_refreshFlags'' \<mapsto> 1] demoViewer)) = [''_refreshFlags'' \<mapsto> 1]"
  using execute_refresh_flags [of "demoViewer\<lparr>mOptionsChanged := True\<rparr>" demoHost
          "[''_refreshFlags'' \<mapsto> 1]"]
    execute_refresh_flags [of demoViewer demoHost "[''_refreshFlags'' \<mapsto> 1]"]
  by (simp add: demoViewer_def demoHost_def)

section \<open>Construction: all or nothing\<close>

text \<open>
  C7. \<^verbatim>\<open>create\<close> returns an object exactly when the compute pass, the sample generator and
  the readback buffer are all created, and the object then holds the three of them;
  otherwise it returns null.
\<close>

theorem create_all_or_null:
  "(create host fresh \<noteq> None)
     = (\<exists>pass gen buf. ComputePass_create host = Some pass
          \<and> SampleGenerator_create host = Some gen
          \<and> StructuredBuffer_create host pass = Some buf)
   \<and> (\<forall>pPass. create host fresh = Some pPass \<longrightarrow>
         (\<exists>pass gen buf. ComputePass_create host = Some pass
            \<and> SampleGenerator_create host = Some gen
            \<and> StructuredBuffer_create host pass = Some buf
            \<and> pPass = fresh\<lparr>mpViewerPass := Some pass, mpSampleGenerator := Some gen,
                             mPixelDataBuffer := Some buf\<rparr>))"
  by (auto simp: create_def init_def Let_def split: option.splits)

theorem create_all_or_null_witness:
  "create demoHost demoViewer = Some demoViewer
   \<and> create (demoHost\<lparr>SampleGenerator_create := None\<rparr>) demoViewer = None
   \<and> create (demoHost\<lparr>ComputePass_create := None\<rparr>) demoViewer = None
   \<and> create (demoHost\<lparr>StructuredBuffer_create := (\<lambda>pass. None)\<rparr>) demoViewer = None"
  using create_all_or_null [of demoHost demoViewer]
    create_all_or_null [of "demoHost\<lparr>SampleGenerator_create := None\<rparr>" demoViewer]
    create_all_or_null [of "demoHost\<lparr>ComputePass_create := None\<rparr>" demoViewer]
    create_all_or_null [of "demoHost\<lparr>StructuredBuffer_create := (\<lambda>pass. None)\<rparr>" demoViewer]
  by (auto simp: demoHost_def demoViewer_def)

section \<open>The viewport\<close>

lemma viewportExtent_unat: "unat (viewportExtent (w, h)) = min (unat w) (unat h)"
  by (simp add: viewportExtent_def min_def word_le_nat_alt)

lemma viewportExtent_le: "viewportExtent (w, h) \<le> w" "viewportExtent (w, h) \<le> h"
  by (simp_all add: viewportExtent_def)

lemma viewportXOffset_unat:
  "unat (viewportXOffset (w, h)) = (unat w - min (unat w) (unat h)) div 2"
  using viewportExtent_le(1) [of w h]
  by (simp add: viewportXOffset_def unat_div unat_sub viewportExtent_unat)

lemma viewportYOffset_unat:
  "unat (viewportYOffset (w, h)) = (unat h - min (unat w) (unat h)) div 2"
  using viewportExtent_le(2) [of w h]
  by (simp add: viewportYOffset_def unat_div unat_sub viewportExtent_unat)

text \<open>
  C9. For a frame of \<open>w \<ge> 1\<close> by \<open>h \<ge> 1\<close> pixels, \<^verbatim>\<open>compile\<close> places a square of side
  \<open>extent = min w h\<close>, which is at least 1, at the offset \<open>((w - extent) div 2,
  (h - extent) div 2)\<close>; it stores the offset converted to floats and the scale
  \<open>1 / extent\<close> in both components; the square lies inside the frame.
\<close>

theorem compile_centres_viewport:
  fixes s :: "'f BSDFViewer"
  assumes "1 \<le> unat w" and "1 \<le> unat h"
  shows "frameDim (mParams (compile host (w, h) s)) = (w, h)
       \<and> unat (viewportExtent (w, h)) = min (unat w) (unat h)
       \<and> 1 \<le> unat (viewportExtent (w, h))
       \<and> unat (viewportXOffset (w, h)) = (unat w - unat (viewportExtent (w, h))) div 2
       \<and> unat (viewportYOffset (w, h)) = (unat h - unat (viewportExtent (w, h))) div 2
       \<and> viewportOffset (mParams (compile host (w, h) s))
           = (ofUInt (floatOps host) (viewportXOffset (w, h)),
              ofUInt (floatOps host) (viewportYOffset (w, h)))
       \<and> viewportScale (mParams (compile host (w, h) s))
           = (fdiv (floatOps host) (f1 (floatOps host))
                (ofUInt (floatOps host) (viewportExtent (w, h))),
              fdiv (floatOps host) (f1 (floatOps host))
                (ofUInt (floatOps host) (viewportExtent (w, h))))
       \<and> unat (viewportXOffset (w, h)) + unat (viewportExtent (w, h)) \<le> unat w
       \<and> unat (viewportYOffset (w, h)) + unat (viewportExtent (w, h)) \<le> unat h"
proof -
  have c: "frameDim (mParams (compile host (w, h) s)) = (w, h)"
    "viewportOffset (mParams (compile host (w, h) s))
           = (ofUInt (floatOps host) (viewportXOffset (w, h)),
              ofUInt (floatOps host) (viewportYOffset (w, h)))"
    "viewportScale (mParams (compile host (w, h) s))
           = (fdiv (floatOps host) (f1 (floatOps host))
                (ofUInt (floatOps host) (viewportExtent (w, h))),
              fdiv (floatOps host) (f1 (floatOps host))
                (ofUInt (floatOps host) (viewportExtent (w, h))))"
    by (simp_all add: compile_def Let_def)
  have e: "unat (viewportExtent (w, h)) = min (unat w) (unat h)"
    by (rule viewportExtent_unat)
  have e1: "1 \<le> unat (viewportExtent (w, h))"
    using assms e by simp
  have x: "unat (viewportXOffset (w, h)) = (unat w - unat (viewportExtent (w, h))) div 2"
    and y: "unat (viewportYOffset (w, h)) = (unat h - unat (viewportExtent (w, h))) div 2"
    by (simp_all add: viewportXOffset_unat viewportYOffset_unat e)
  have ix: "unat (viewportXOffset (w, h)) + unat (viewportExtent (w, h)) \<le> unat w"
    and iy: "unat (viewportYOffset (w, h)) + unat (viewportExtent (w, h)) \<le> unat h"
    using e by (simp_all add: x y)
  from c e e1 x y ix iy show ?thesis by simp
qed

theorem compile_centres_viewport_witness:
  "viewportOffset (mParams (compile demoHost (6, 2) demoViewer)) = (2, 0)
   \<and> viewportExtent (6, 2) = 2
   \<and> viewportXOffset (6, 2) = 2 \<and> viewportYOffset (6, 2) = 0"
  using compile_centres_viewport [of 6 2 demoHost demoViewer]
  by (simp add: viewportExtent_def viewportXOffset_def viewportYOffset_def demoHost_def
        demoFloatOps_def)

section \<open>Attaching a scene: the material list\<close>

lemma materialLoop_step:
  fixes i n :: uint32_t
  assumes "i < n"
  shows "unat (i + 1) = Suc (unat i)"
proof -
  have "unat n < 2 ^ 32"
    using unsigned_less [of n, where 'a = nat] by simp
  with assms have "unat i + unat (1 :: uint32_t) < 2 ^ LENGTH(32)"
    by (simp add: word_less_nat_alt)
  then have "unat (i + 1) = unat i + unat (1 :: uint32_t)"
    by (simp only: unat_add_lem [THEN iffD1])
  then show ?thesis by simp
qed

text \<open>The loop appends the entries of the indices from its counter up to the count.\<close>

lemma materialLoop_map:
  "materialLoop scene i acc
     = acc @ map (materialEntry scene) [unat i ..< unat (getMaterialCount scene)]"
proof (induction scene i acc rule: materialLoop.induct)
  case (1 scene i acc)
  show ?case
  proof (cases "i < getMaterialCount scene")
    case True
    then have lt: "unat i < unat (getMaterialCount scene)"
      by (simp add: word_less_nat_alt)
    have suc: "unat (i + 1) = Suc (unat i)"
      using True by (rule materialLoop_step)
    have "materialLoop scene i acc
            = materialLoop scene (i + 1)
                (acc @ [(i, to_string (unat i) @ '': '' @ getMaterialName scene i)])"
      using True by (simp add: materialLoop.simps [of scene i])
    also have "\<dots> = (acc @ [(i, to_string (unat i) @ '': '' @ getMaterialName scene i)])
                     @ map (materialEntry scene) [Suc (unat i) ..< unat (getMaterialCount scene)]"
      using "1.IH" [OF True] suc by simp
    also have "\<dots> = acc @ map (materialEntry scene) [unat i ..< unat (getMaterialCount scene)]"
      using lt by (simp add: upt_conv_Cons materialEntry_def)
    finally show ?thesis .
  next
    case False
    then have "unat (getMaterialCount scene) \<le> unat i"
      by (simp add: word_less_nat_alt)
    with False show ?thesis by (simp add: materialLoop.simps [of scene i])
  qed
qed

lemma setScene_null:
  "setScene host None s
     = (Returned (),
        s\<lparr>mpScene := None, mpEnvProbe := None, mEnvProbeFilename := [], mMaterialList := [],
          mParams := (mParams s)\<lparr>materialID := 0, useSceneMaterial := False,
                                 useEnvMap := False\<rparr>\<rparr>)"
  by (simp add: setScene_def)

text \<open>Unless binding the scene's environment map throws, the loop fills the list.\<close>

lemma setScene_materials:
  "mMaterialList (snd (setScene host (Some scene) s))
     = (if fst (setScene host (Some scene) s) = Thrown BindEnvProbeFailed then []
        else materialLoop scene 0 [])"
proof (cases "getLightProbe scene")
  case None
  then show ?thesis
    by (simp add: setScene_def Let_def)
next
  case (Some fn)
  show ?thesis
  proof (cases "EnvProbe_create host fn")
    case None
    with Some show ?thesis
      by (simp add: setScene_def loadEnvMap_def Let_def)
  next
    case (Some probe)
    with \<open>getLightProbe scene = Some fn\<close> show ?thesis
      by (simp add: setScene_def loadEnvMap_def Let_def)
  qed
qed

text \<open>The size of a list that \<^verbatim>\<open>setScene\<close> leaves fits 32 bits.\<close>

lemma setScene_list_fits:
  "length (mMaterialList (snd (setScene host pScene s))) < 2 ^ 32"
proof (cases pScene)
  case None
  then show ?thesis by (simp add: setScene_def)
next
  case (Some scene)
  have "unat (getMaterialCount scene) < 2 ^ 32"
    using unsigned_less [of "getMaterialCount scene", where 'a = nat] by simp
  with Some show ?thesis
    by (simp add: setScene_materials materialLoop_map)
qed

text \<open>
  C10 (as amended). \<^verbatim>\<open>setScene\<close> with a null scene returns with an empty material list,
  material index 0, no environment probe, an empty probe file name, and the
  scene-material and environment-map options off. With a scene, in every call that does
  not throw while binding the scene's environment map, the material list holds the entry
  \<open>(i, to_string i + ": " + name\<^sub>i)\<close> of every material \<open>i\<close> of the scene, once, in the
  order \<open>0, 1, \<dots>\<close>.
\<close>

theorem setScene_material_list:
  "fst (setScene host None s) = Returned ()
   \<and> mMaterialList (snd (setScene host None s)) = []
   \<and> materialID (mParams (snd (setScene host None s))) = 0
   \<and> mpEnvProbe (snd (setScene host None s)) = None
   \<and> mEnvProbeFilename (snd (setScene host None s)) = []
   \<and> \<not> useSceneMaterial (mParams (snd (setScene host None s)))
   \<and> \<not> useEnvMap (mParams (snd (setScene host None s)))
   \<and> (fst (setScene host (Some scene) s) \<noteq> Thrown BindEnvProbeFailed \<longrightarrow>
        mMaterialList (snd (setScene host (Some scene) s))
          = map (materialEntry scene) [0 ..< unat (getMaterialCount scene)])"
  by (simp add: setScene_null setScene_materials materialLoop_map)

theorem setScene_material_list_witness:
  "fst (setScene demoHost (Some demoScene) demoViewer) = Returned ()
   \<and> mMaterialList (snd (setScene demoHost (Some demoScene) demoViewer))
       = [(0, ''0: gold''), (1, ''1: iron'')]"
proof -
  have r: "fst (setScene demoHost (Some demoScene) demoViewer) = Returned ()"
    by (simp add: setScene_def materialLoop.simps demo_defs)
  have "[0 ..< unat (getMaterialCount demoScene)] = [0, 1]"
    by (simp add: demoScene_def upt_conv_Cons)
  with r show ?thesis
    using setScene_material_list [of demoHost demoViewer demoScene]
    by (simp add: materialEntry_def demoScene_def)
qed

text \<open>
  A scene with two materials and a light probe whose environment map is created but
  cannot be bound: \<^verbatim>\<open>loadEnvMap\<close> throws inside \<^verbatim>\<open>setScene\<close>, before the loop, and the
  material list stays empty.
\<close>

theorem setScene_throw_leaves_list_empty:
  "getMaterialCount (demoScene\<lparr>getLightProbe := Some ''sky.hdr''\<rparr>) = 2
   \<and> fst (setScene (demoHost\<lparr>EnvProbe_setIntoConstantBuffer := (\<lambda>probe. False)\<rparr>)
          (Some (demoScene\<lparr>getLightProbe := Some ''sky.hdr''\<rparr>)) demoViewer)
       = Thrown BindEnvProbeFailed
   \<and> mMaterialList (snd (setScene (demoHost\<lparr>EnvProbe_setIntoConstantBuffer := (\<lambda>probe. False)\<rparr>)
          (Some (demoScene\<lparr>getLightProbe := Some ''sky.hdr''\<rparr>)) demoViewer)) = []"
  by (simp add: setScene_def loadEnvMap_def demo_defs)

section \<open>The light options exclude each other\<close>

text \<open>The groups other than "Light" leave the light options and the probe alone.\<close>

lemma renderUI_material_light:
  "useDirectionalLight (mParams (snd (renderUI_material ui d s))) = useDirectionalLight (mParams s)"
  "useEnvMap (mParams (snd (renderUI_material ui d s))) = useEnvMap (mParams s)"
  "mpEnvProbe (snd (renderUI_material ui d s)) = mpEnvProbe s"
  "mEnvProbeFilename (snd (renderUI_material ui d s)) = mEnvProbeFilename s"
  by (simp_all add: renderUI_material_def Let_def split: prod.splits)

lemma renderUI_bsdf_light:
  "useDirectionalLight (mParams (snd (renderUI_bsdf ui d s))) = useDirectionalLight (mParams s)"
  "useEnvMap (mParams (snd (renderUI_bsdf ui d s))) = useEnvMap (mParams s)"
  "mpEnvProbe (snd (renderUI_bsdf ui d s)) = mpEnvProbe s"
  "mEnvProbeFilename (snd (renderUI_bsdf ui d s)) = mEnvProbeFilename s"
  by (simp_all add: renderUI_bsdf_def Let_def split: prod.splits)

lemma renderUI_camera_light:
  "useDirectionalLight (mParams (snd (renderUI_camera ui d s))) = useDirectionalLight (mParams s)"
  "useEnvMap (mParams (snd (renderUI_camera ui d s))) = useEnvMap (mParams s)"
  by (simp_all add: renderUI_camera_def Let_def split: prod.splits)

lemma renderUI_pixel_light:
  "useDirectionalLight (mParams (renderUI_pixel ui s)) = useDirectionalLight (mParams s)"
  "useEnvMap (mParams (renderUI_pixel ui s)) = useEnvMap (mParams s)"
  by (simp_all add: renderUI_pixel_def Let_def split: prod.splits)

text \<open>The group "Light", when it returns: open, it separates the two options.\<close>

lemma renderUI_light_separates:
  assumes "renderUI_light host ui d s = (Returned d', s')"
    and "groupOpen ui ''Light'' \<or> \<not> (useDirectionalLight (mParams s) \<and> useEnvMap (mParams s))"
  shows "\<not> (useDirectionalLight (mParams s') \<and> useEnvMap (mParams s'))"
  using assms
  by (auto simp: renderUI_light_def Let_def loadEnvMap_def
           split: prod.splits if_splits option.splits outcome.splits)

lemma renderUI_light_noload:
  assumes "groupOpen ui ''Light''" "\<not> (button ui ''Load envmap'' \<and> openFileDialog ui \<noteq> None)"
  shows "useDirectionalLight (mParams (snd (renderUI_light host ui d s)))
           = (directionalBox ui s \<and> \<not> (mpEnvProbe s \<noteq> None \<and> envMapBox ui s))"
    and "useEnvMap (mParams (snd (renderUI_light host ui d s)))
           = (if mpEnvProbe s \<noteq> None then envMapBox ui s
              else \<not> directionalBox ui s \<and> useEnvMap (mParams s))"
  using assms
  by (auto simp: renderUI_light_def Let_def directionalBox_def envMapBox_def
           split: prod.splits option.splits)

lemma renderUI_light_load:
  assumes "groupOpen ui ''Light''" "button ui ''Load envmap''" "openFileDialog ui = Some fn"
    and "EnvProbe_create host fn \<noteq> None"
    and "renderUI_light host ui d s = (Returned d', s')"
  shows "\<not> useDirectionalLight (mParams s') \<and> useEnvMap (mParams s')"
  using assms
  by (auto simp: renderUI_light_def Let_def loadEnvMap_def
           split: prod.splits option.splits if_splits)

lemma renderUI_Returned:
  assumes "fst (renderUI host ui s) = Returned ()"
  obtains d1 s1 d2 s2 d3 s3 d4 s4 where
    "renderUI_material ui (fst (checkbox ui ''Enable BSDF slice viewer'' (sliceViewer (mParams s))))
       (s\<lparr>mParams := (mParams s)\<lparr>sliceViewer :=
             snd (checkbox ui ''Enable BSDF slice viewer'' (sliceViewer (mParams s)))\<rparr>\<rparr>)
       = (Returned d1, s1)"
    "renderUI_bsdf ui d1 s1 = (d2, s2)"
    "renderUI_light host ui d2 s2 = (Returned d3, s3)"
    "renderUI_camera ui d3 s3 = (d4, s4)"
    "snd (renderUI host ui s)
       = (if d4 then (renderUI_pixel ui s4)\<lparr>mOptionsChanged := True\<rparr> else renderUI_pixel ui s4)"
  using assms
  by (auto simp: renderUI_def Let_def split: prod.splits outcome.splits)

lemma renderUI_light_input:
  assumes "fst (renderUI host ui s) = Returned ()"
  obtains d2 s2 d3 s3 where
    "renderUI_light host ui d2 s2 = (Returned d3, s3)"
    "useDirectionalLight (mParams s2) = useDirectionalLight (mParams s)"
    "useEnvMap (mParams s2) = useEnvMap (mParams s)"
    "mpEnvProbe s2 = mpEnvProbe s"
    "mEnvProbeFilename s2 = mEnvProbeFilename s"
    "useDirectionalLight (mParams (snd (renderUI host ui s))) = useDirectionalLight (mParams s3)"
    "useEnvMap (mParams (snd (renderUI host ui s))) = useEnvMap (mParams s3)"
proof -
  let ?c = "checkbox ui ''Enable BSDF slice viewer'' (sliceViewer (mParams s))"
  let ?s0 = "s\<lparr>mParams := (mParams s)\<lparr>sliceViewer := snd ?c\<rparr>\<rparr>"
  from assms obtain d1 s1 d2 s2 d3 s3 d4 s4 where
    m: "renderUI_material ui (fst ?c) ?s0 = (Returned d1, s1)"
    and b: "renderUI_bsdf ui d1 s1 = (d2, s2)"
    and l: "renderUI_light host ui d2 s2 = (Returned d3, s3)"
    and c: "renderUI_camera ui d3 s3 = (d4, s4)"
    and p: "snd (renderUI host ui s)
       = (if d4 then (renderUI_pixel ui s4)\<lparr>mOptionsChanged := True\<rparr> else renderUI_pixel ui s4)"
    by (rule renderUI_Returned)
  have s1: "useDirectionalLight (mParams s1) = useDirectionalLight (mParams s)"
    "useEnvMap (mParams s1) = useEnvMap (mParams s)"
    "mpEnvProbe s1 = mpEnvProbe s" "mEnvProbeFilename s1 = mEnvProbeFilename s"
    using renderUI_material_light [of ui "fst ?c" ?s0] by (simp_all add: m)
  have s2: "useDirectionalLight (mParams s2) = useDirectionalLight (mParams s)"
    "useEnvMap (mParams s2) = useEnvMap (mParams s)"
    "mpEnvProbe s2 = mpEnvProbe s" "mEnvProbeFilename s2 = mEnvProbeFilename s"
    using renderUI_bsdf_light [of ui d1 s1] s1 by (simp_all add: b)
  have s4: "useDirectionalLight (mParams s4) = useDirectionalLight (mParams s3)"
    "useEnvMap (mParams s4) = useEnvMap (mParams s3)"
    using renderUI_camera_light [of ui d3 s3] by (simp_all add: c)
  have s': "useDirectionalLight (mParams (snd (renderUI host ui s))) = useDirectionalLight (mParams s3)"
    "useEnvMap (mParams (snd (renderUI host ui s))) = useEnvMap (mParams s3)"
    using renderUI_pixel_light [of ui s4] s4 by (simp_all add: p)
  from l s2 s' show thesis by (rule that)
qed

lemma lightBoxes_cong:
  assumes "useDirectionalLight (mParams s2) = useDirectionalLight (mParams s)"
    "useEnvMap (mParams s2) = useEnvMap (mParams s)"
    "mEnvProbeFilename s2 = mEnvProbeFilename s"
  shows "directionalBox ui s2 = directionalBox ui s" "envMapBox ui s2 = envMapBox ui s"
  using assms by (simp_all add: directionalBox_def envMapBox_def)

text \<open>
  No other operation enables one of the two options: they keep both, except that
  \<^verbatim>\<open>setScene\<close> may switch the environment map off.
\<close>

lemma light_options_kept:
  "useDirectionalLight (mParams (compile host dims s)) = useDirectionalLight (mParams s)"
  "useEnvMap (mParams (compile host dims s)) = useEnvMap (mParams s)"
  "useDirectionalLight (mParams (fst (snd (execute host dict s)))) = useDirectionalLight (mParams s)"
  "useEnvMap (mParams (fst (snd (execute host dict s)))) = useEnvMap (mParams s)"
  "useDirectionalLight (mParams (snd (onMouseEvent host me s))) = useDirectionalLight (mParams s)"
  "useEnvMap (mParams (snd (onMouseEvent host me s))) = useEnvMap (mParams s)"
  "useDirectionalLight (mParams (snd (onKeyEvent ke s))) = useDirectionalLight (mParams s)"
  "useEnvMap (mParams (snd (onKeyEvent ke s))) = useEnvMap (mParams s)"
  "mParams (snd (loadEnvMap host fn s)) = mParams s"
  by (simp_all add: compile_def execute_def setupConstants_def onMouseEvent_def
        onKeyEvent_def loadEnvMap_def Let_def split: prod.splits option.splits)

lemma light_options_setScene:
  "useDirectionalLight (mParams (snd (setScene host pScene s))) = useDirectionalLight (mParams s)"
  "useEnvMap (mParams (snd (setScene host pScene s))) \<longrightarrow> useEnvMap (mParams s)"
  by (auto simp: setScene_def loadEnvMap_def Let_def
        split: prod.splits option.splits outcome.splits if_splits)

text \<open>
  C8. After a \<^verbatim>\<open>renderUI\<close> that completes, the directional light and the environment map
  are not both enabled, provided the light group was shown or they were not both enabled
  before. In the shown light group, with no file chosen for loading: a directional-light
  box left checked, unless the environment map's box is left checked too, gives
  directional light on and environment map off; an environment-map box left checked
  gives environment map on and directional light off. A file chosen with "Load envmap"
  whose probe is created gives environment map on and directional light off.
\<close>

theorem renderUI_lights_exclusive:
  assumes "fst (renderUI host ui s) = Returned ()"
  shows "(groupOpen ui ''Light'' \<or> \<not> (useDirectionalLight (mParams s) \<and> useEnvMap (mParams s))
            \<longrightarrow> \<not> (useDirectionalLight (mParams (snd (renderUI host ui s)))
                     \<and> useEnvMap (mParams (snd (renderUI host ui s)))))
       \<and> (groupOpen ui ''Light'' \<and> \<not> (button ui ''Load envmap'' \<and> openFileDialog ui \<noteq> None)
            \<and> directionalBox ui s \<and> \<not> (mpEnvProbe s \<noteq> None \<and> envMapBox ui s)
            \<longrightarrow> useDirectionalLight (mParams (snd (renderUI host ui s)))
                \<and> \<not> useEnvMap (mParams (snd (renderUI host ui s))))
       \<and> (groupOpen ui ''Light'' \<and> \<not> (button ui ''Load envmap'' \<and> openFileDialog ui \<noteq> None)
            \<and> mpEnvProbe s \<noteq> None \<and> envMapBox ui s
            \<longrightarrow> \<not> useDirectionalLight (mParams (snd (renderUI host ui s)))
                \<and> useEnvMap (mParams (snd (renderUI host ui s))))
       \<and> (groupOpen ui ''Light'' \<and> button ui ''Load envmap'' \<and> openFileDialog ui = Some fn
            \<and> EnvProbe_create host fn \<noteq> None
            \<longrightarrow> \<not> useDirectionalLight (mParams (snd (renderUI host ui s)))
                \<and> useEnvMap (mParams (snd (renderUI host ui s))))"
proof -
  let ?s' = "snd (renderUI host ui s)"
  from assms obtain d2 s2 d3 s3 where
    l: "renderUI_light host ui d2 s2 = (Returned d3, s3)"
    and pre: "useDirectionalLight (mParams s2) = useDirectionalLight (mParams s)"
      "useEnvMap (mParams s2) = useEnvMap (mParams s)"
      "mpEnvProbe s2 = mpEnvProbe s"
      "mEnvProbeFilename s2 = mEnvProbeFilename s"
    and post: "useDirectionalLight (mParams ?s') = useDirectionalLight (mParams s3)"
      "useEnvMap (mParams ?s') = useEnvMap (mParams s3)"
    by (rule renderUI_light_input)
  have boxes: "directionalBox ui s2 = directionalBox ui s" "envMapBox ui s2 = envMapBox ui s"
    using lightBoxes_cong [OF pre(1,2,4)] by simp_all
  have s3: "s3 = snd (renderUI_light host ui d2 s2)" by (simp add: l)
  have inv: "\<not> (useDirectionalLight (mParams ?s') \<and> useEnvMap (mParams ?s'))"
    if "groupOpen ui ''Light'' \<or> \<not> (useDirectionalLight (mParams s) \<and> useEnvMap (mParams s))"
    using renderUI_light_separates [OF l] that pre post by simp
  have noload: "useDirectionalLight (mParams ?s')
                  = (directionalBox ui s \<and> \<not> (mpEnvProbe s \<noteq> None \<and> envMapBox ui s))
              \<and> useEnvMap (mParams ?s')
                  = (if mpEnvProbe s \<noteq> None then envMapBox ui s
                     else \<not> directionalBox ui s \<and> useEnvMap (mParams s))"
    if "groupOpen ui ''Light''" "\<not> (button ui ''Load envmap'' \<and> openFileDialog ui \<noteq> None)"
    using renderUI_light_noload [OF that, of host d2 s2] pre post boxes s3 by simp
  have load: "\<not> useDirectionalLight (mParams ?s') \<and> useEnvMap (mParams ?s')"
    if "groupOpen ui ''Light''" "button ui ''Load envmap''" "openFileDialog ui = Some fn"
      "EnvProbe_create host fn \<noteq> None"
    using renderUI_light_load [OF that l] post by simp
  show ?thesis
    using inv noload load by auto
qed

lemmas renderUI_defs =
  renderUI_def renderUI_material_def renderUI_bsdf_def renderUI_light_def
  renderUI_camera_def renderUI_pixel_def

theorem renderUI_lights_exclusive_witness:
  "fst (renderUI demoHost demoGui
          (demoViewer\<lparr>mParams := demoParams\<lparr>useDirectionalLight := True, useEnvMap := True\<rparr>\<rparr>))
     = Returned ()
   \<and> useDirectionalLight (mParams (snd (renderUI demoHost demoGui
          (demoViewer\<lparr>mParams := demoParams\<lparr>useDirectionalLight := True, useEnvMap := True\<rparr>\<rparr>))))
   \<and> \<not> useEnvMap (mParams (snd (renderUI demoHost demoGui
          (demoViewer\<lparr>mParams := demoParams\<lparr>useDirectionalLight := True, useEnvMap := True\<rparr>\<rparr>))))"
proof -
  let ?s = "demoViewer\<lparr>mParams := demoParams\<lparr>useDirectionalLight := True, useEnvMap := True\<rparr>\<rparr>"
  have r: "fst (renderUI demoHost demoGui ?s) = Returned ()"
    by (simp add: renderUI_defs demo_defs)
  have g: "groupOpen demoGui ''Light''" "\<not> button demoGui ''Load envmap''"
    "directionalBox demoGui ?s" "mpEnvProbe ?s = None"
    by (simp_all add: directionalBox_def demoGui_def demoViewer_def demoParams_def)
  show ?thesis
    using r g renderUI_lights_exclusive [OF r, of "''sky.hdr''"] by simp
qed

end
